theory Spec2Isabelle
  imports Complex_Main
begin

section \<open>The platformer's simulation core (main.go)\<close>

text \<open>
  The Go program keeps every coordinate, velocity and dimension in a \<^verbatim>\<open>float64\<close>.
  The data model of the specification calls them reals, and this development follows it:
  a \<^verbatim>\<open>float64\<close> is a \<^typ>\<open>real\<close>, \<^verbatim>\<open>math.Min\<close> is \<^const>\<open>min\<close>,
  \<^verbatim>\<open>math.Abs\<close> is \<^const>\<open>abs\<close>. Rounding, infinities and NaN are outside the model.
  Go evaluates the constant expressions \<^verbatim>\<open>screenWidth/2\<close>, \<^verbatim>\<open>screenHeight/2\<close>,
  \<^verbatim>\<open>moveSpeed * 0.2\<close> and \<^verbatim>\<open>screenHeight + 500\<close> exactly, to 400, 300, 0.6 and 1100.
\<close>

subsection \<open>Constants\<close>

definition screenWidth :: real where "screenWidth = 800"
definition screenHeight :: real where "screenHeight = 600"
definition gravity :: real where "gravity = 0.3"
definition moveSpeed :: real where "moveSpeed = 3"
definition jumpPower :: real where "jumpPower = - 10"
definition airResistance :: real where "airResistance = 0.98"

text \<open>The block types, an \<^verbatim>\<open>iota\<close> enumeration of Go ints, used for drawing only.\<close>

definition PlatformType :: int where "PlatformType = 0"
definition SolidType :: int where "SolidType = 1"
definition WoodType :: int where "WoodType = 2"
definition DirtType :: int where "DirtType = 3"

subsection \<open>Data\<close>

text \<open>
  The interface \<^verbatim>\<open>GameObject\<close> (GetX, GetY, GetWidth, GetHeight) is the common part of
  \<^verbatim>\<open>Player\<close> and \<^verbatim>\<open>Block\<close>: a record that both extend, so that a function over
  any \<^verbatim>\<open>GameObject\<close> is a function over the record scheme.
\<close>

record GameObject =
  x :: real
  y :: real
  width :: real
  height :: real

record Player = GameObject +
  vx :: real
  vy :: real
  onGround :: bool

record Block = GameObject +
  blockType :: int

text \<open>The fields of \<^verbatim>\<open>Camera\<close> are x and y in the source.\<close>

record Camera =
  x_cam :: real
  y_cam :: real

record Game =
  player :: Player
  platforms :: "Block list"
  camera :: Camera
  score :: int
  gameStarted :: bool

text \<open>
  What the input library reports in one tick: \<^verbatim>\<open>ebiten.IsKeyPressed\<close> for the four
  movement keys (held), \<^verbatim>\<open>inpututil.IsKeyJustPressed\<close> for W and Space (pressed in this
  tick).
\<close>

record Keys =
  keyArrowLeft :: bool
  keyA :: bool
  keyArrowRight :: bool
  keyD :: bool
  keyW_just :: bool
  keySpace_just :: bool

subsection \<open>Intersection test\<close>

definition checkCollision :: "'a GameObject_scheme \<Rightarrow> 'b GameObject_scheme \<Rightarrow> bool" where
  "checkCollision obj1 obj2 =
     (x obj1 < x obj2 + width obj2 \<and>
      x obj1 + width obj1 > x obj2 \<and>
      y obj1 < y obj2 + height obj2 \<and>
      y obj1 + height obj1 > y obj2)"

subsection \<open>Input\<close>

text \<open>
  \<^verbatim>\<open>canJump\<close>: the probe is a \<^verbatim>\<open>Player\<close> literal with x, y + 1, width and height set; the
  fields it leaves out are Go's zero values. The loop returns at the first block the probe
  intersects. The function assigns to nothing, so the model returns the answer alone.
\<close>

fun canJump_loop :: "Player \<Rightarrow> Block list \<Rightarrow> bool" where
  "canJump_loop tempPlayer [] = False"
| "canJump_loop tempPlayer (block # rest) =
     (if checkCollision tempPlayer block then True else canJump_loop tempPlayer rest)"

definition canJump :: "Game \<Rightarrow> bool" where
  "canJump g =
     (if onGround (player g) then True
      else
        let tempPlayer = \<lparr>x = x (player g), y = y (player g) + 1,
                          width = width (player g), height = height (player g),
                          vx = 0, vy = 0, onGround = False\<rparr>
        in canJump_loop tempPlayer (platforms g))"

definition handleInput :: "Keys \<Rightarrow> Game \<Rightarrow> Game" where
  "handleInput k g =
     (let p = player g;
          p1 =
            (if keyArrowLeft k \<or> keyA k then
               (let q = p\<lparr>vx := vx p - moveSpeed * 0.2\<rparr>
                in if vx q < - moveSpeed then q\<lparr>vx := - moveSpeed\<rparr> else q)
             else if keyArrowRight k \<or> keyD k then
               (let q = p\<lparr>vx := vx p + moveSpeed * 0.2\<rparr>
                in if vx q > moveSpeed then q\<lparr>vx := moveSpeed\<rparr> else q)
             else if onGround p then
               (let q = p\<lparr>vx := vx p * 0.8\<rparr>
                in if \<bar>vx q\<bar> < 0.1 then q\<lparr>vx := 0\<rparr> else q)
             else p);
          g1 = g\<lparr>player := p1\<rparr>
      in if keyW_just k then
           (if canJump g1 then g1\<lparr>player := p1\<lparr>vy := jumpPower, onGround := False\<rparr>\<rparr> else g1)
         else g1)"

subsection \<open>Physics and integration\<close>

definition applyPhysics :: "Game \<Rightarrow> Game" where
  "applyPhysics g =
     (let p = player g;
          p1 = (if \<not> onGround p then p\<lparr>vy := vy p + gravity\<rparr> else p);
          p2 = p1\<lparr>vx := vx p1 * airResistance\<rparr>;
          p3 = (if vy p2 > 10 then p2\<lparr>vy := 10\<rparr> else p2)
      in g\<lparr>player := p3\<rparr>)"

definition updatePlayerPosition :: "Game \<Rightarrow> Game" where
  "updatePlayerPosition g =
     (let p = player g
      in g\<lparr>player := p\<lparr>x := x p + vx p, y := y p + vy p\<rparr>\<rparr>)"

subsection \<open>Collision resolution\<close>

text \<open>
  The body of the loop of \<^verbatim>\<open>checkCollisions\<close> for one block. The chain of the source has
  no final \<^verbatim>\<open>else\<close>: when no comparison succeeds the player is left as it is.
\<close>

definition resolveBlock :: "Player \<Rightarrow> Block \<Rightarrow> Player" where
  "resolveBlock p block =
     (if checkCollision p block then
        (let dx1 = x p + width p - x block;
             dx2 = x block + width block - x p;
             dy1 = y p + height p - y block;
             dy2 = y block + height block - y p;
             minOverlap = min (min dx1 dx2) (min dy1 dy2)
         in if minOverlap = dx1 then p\<lparr>x := x block - width p, vx := 0\<rparr>
            else if minOverlap = dx2 then p\<lparr>x := x block + width block, vx := 0\<rparr>
            else if minOverlap = dy1 then
              (let q = p\<lparr>y := y block - height p\<rparr>
               in if vy q < 0 then q\<lparr>vy := 0\<rparr> else q)
            else if minOverlap = dy2 then
              (let q = p\<lparr>y := y block + height block\<rparr>
               in if vy q \<ge> 0 then q\<lparr>vy := 0, onGround := True\<rparr> else q)
            else p)
      else p)"

fun collisionLoop :: "Player \<Rightarrow> Block list \<Rightarrow> Player" where
  "collisionLoop p [] = p"
| "collisionLoop p (block # rest) = collisionLoop (resolveBlock p block) rest"

definition checkCollisions :: "Game \<Rightarrow> Game" where
  "checkCollisions g =
     g\<lparr>player := collisionLoop ((player g)\<lparr>onGround := False\<rparr>) (platforms g)\<rparr>"

subsection \<open>Camera, boundary check and reset\<close>

definition updateCamera :: "Game \<Rightarrow> Game" where
  "updateCamera g =
     (let targetX = x (player g) - screenWidth / 2;
          targetY = y (player g) - screenHeight / 2;
          c = camera g;
          c1 = c\<lparr>x_cam := x_cam c + (targetX - x_cam c) * 0.1\<rparr>;
          c2 = c1\<lparr>y_cam := y_cam c1 + (targetY - y_cam c1) * 0.1\<rparr>;
          c3 = (if x_cam c2 < 0 then c2\<lparr>x_cam := 0\<rparr> else c2)
      in g\<lparr>camera := c3\<rparr>)"

definition resetGame :: "Game \<Rightarrow> Game" where
  "resetGame g =
     g\<lparr>player := \<lparr>x = 100, y = 100, width = 20, height = 20,
                   vx = 0, vy = 0, onGround = False\<rparr>,
       score := 0\<rparr>"

definition checkBoundaries :: "Game \<Rightarrow> Game" where
  "checkBoundaries g =
     (if y (player g) > screenHeight + 500 then resetGame g else g)"

subsection \<open>One tick\<close>

text \<open>\<^verbatim>\<open>Update\<close> always returns the error \<^verbatim>\<open>nil\<close>; the model returns the new state.\<close>

definition Update :: "Keys \<Rightarrow> Game \<Rightarrow> Game" where
  "Update k g =
     (if \<not> gameStarted g then
        (if keySpace_just k then g\<lparr>gameStarted := True\<rparr> else g)
      else
        checkBoundaries (updateCamera (checkCollisions
          (updatePlayerPosition (applyPhysics (handleInput k g))))))"

definition NewGame :: Game where
  "NewGame =
     \<lparr>player = \<lparr>x = 100, y = 100, width = 20, height = 20,
                 vx = 0, vy = 0, onGround = False\<rparr>,
      platforms =
        [\<lparr>x = 0, y = screenHeight - 40, width = screenWidth * 2, height = 40, blockType = DirtType\<rparr>,
         \<lparr>x = 300, y = screenHeight - 120, width = 200, height = 20, blockType = PlatformType\<rparr>,
         \<lparr>x = 600, y = screenHeight - 200, width = 150, height = 20, blockType = PlatformType\<rparr>,
         \<lparr>x = 200, y = screenHeight - 300, width = 100, height = 20, blockType = PlatformType\<rparr>,
         \<lparr>x = 500, y = screenHeight - 380, width = 250, height = 20, blockType = PlatformType\<rparr>,
         \<lparr>x = 400, y = screenHeight - 250, width = 30, height = 100, blockType = SolidType\<rparr>,
         \<lparr>x = 100, y = screenHeight - 100, width = 50, height = 60, blockType = DirtType\<rparr>,
         \<lparr>x = 700, y = screenHeight - 300, width = 40, height = 40, blockType = WoodType\<rparr>],
      camera = \<lparr>x_cam = 0, y_cam = 0\<rparr>,
      score = 0,
      gameStarted = False\<rparr>"

subsection \<open>Vocabulary of the properties\<close>

text \<open>No key held or pressed.\<close>

definition idle :: Keys where
  "idle = \<lparr>keyArrowLeft = False, keyA = False, keyArrowRight = False, keyD = False,
           keyW_just = False, keySpace_just = False\<rparr>"

text \<open>
  The area that two boxes have in common, as the specification understands "overlap with
  nonzero area": the product of the lengths of the common intervals on the two axes.
\<close>

definition overlapArea :: "'a GameObject_scheme \<Rightarrow> 'b GameObject_scheme \<Rightarrow> real" where
  "overlapArea a b =
     max 0 (min (x a + width a) (x b + width b) - max (x a) (x b)) *
     max 0 (min (y a + height a) (y b + height b) - max (y a) (y b))"

text \<open>
  The four penetration depths, named after the local variables \<^verbatim>\<open>dx1\<close>, \<^verbatim>\<open>dx2\<close>,
  \<^verbatim>\<open>dy1\<close>, \<^verbatim>\<open>dy2\<close> that hold them in \<^verbatim>\<open>checkCollisions\<close>.
\<close>

definition depth_dx1 :: "Player \<Rightarrow> Block \<Rightarrow> real" where
  "depth_dx1 p block = x p + width p - x block"

definition depth_dx2 :: "Player \<Rightarrow> Block \<Rightarrow> real" where
  "depth_dx2 p block = x block + width block - x p"

definition depth_dy1 :: "Player \<Rightarrow> Block \<Rightarrow> real" where
  "depth_dy1 p block = y p + height p - y block"

definition depth_dy2 :: "Player \<Rightarrow> Block \<Rightarrow> real" where
  "depth_dy2 p block = y block + height block - y p"

text \<open>The smallest of the four depths, \<^verbatim>\<open>minOverlap\<close> in the source.\<close>

definition minDepth :: "Player \<Rightarrow> Block \<Rightarrow> real" where
  "minDepth p block =
     min (min (depth_dx1 p block) (depth_dx2 p block))
         (min (depth_dy1 p block) (depth_dy2 p block))"

text \<open>
  The resolution of \<open>block\<close> reaches the assignment \<^verbatim>\<open>g.player.onGround = true\<close>: the
  block intersects, the first three comparisons of the chain fail, the fourth succeeds and
  \<^verbatim>\<open>vy >= 0\<close>. \<open>landedInPass\<close> follows the loop and tells whether that happens at some
  block of the pass.
\<close>

definition takesLanding :: "Player \<Rightarrow> Block \<Rightarrow> bool" where
  "takesLanding p block =
     (checkCollision p block \<and>
      (let dx1 = x p + width p - x block;
           dx2 = x block + width block - x p;
           dy1 = y p + height p - y block;
           dy2 = y block + height block - y p;
           minOverlap = min (min dx1 dx2) (min dy1 dy2)
       in minOverlap \<noteq> dx1 \<and> minOverlap \<noteq> dx2 \<and> minOverlap \<noteq> dy1 \<and> minOverlap = dy2) \<and>
      vy p \<ge> 0)"

fun landedInPass :: "Player \<Rightarrow> Block list \<Rightarrow> bool" where
  "landedInPass p [] = False"
| "landedInPass p (block # rest) =
     (takesLanding p block \<or> landedInPass (resolveBlock p block) rest)"

text \<open>The player of \<^verbatim>\<open>NewGame\<close> and of \<^verbatim>\<open>resetGame\<close>.\<close>

definition spawnPlayer :: Player where
  "spawnPlayer = \<lparr>x = 100, y = 100, width = 20, height = 20, vx = 0, vy = 0, onGround = False\<rparr>"

subsection \<open>Scenarios\<close>

text \<open>
  The started game with the spawn player and one block, the ground of \<^verbatim>\<open>NewGame\<close>;
  \<open>falling h v\<close> is its player at height \<open>h\<close> with vertical speed \<open>v\<close>, in the air.
\<close>

definition dropGame :: Game where
  "dropGame =
     \<lparr>player = spawnPlayer,
      platforms = [\<lparr>x = 0, y = screenHeight - 40, width = screenWidth * 2, height = 40,
                    blockType = DirtType\<rparr>],
      camera = \<lparr>x_cam = 0, y_cam = 0\<rparr>, score = 0, gameStarted = True\<rparr>"

definition falling :: "real \<Rightarrow> real \<Rightarrow> Player" where
  "falling h v = \<lparr>x = 100, y = h, width = 20, height = 20, vx = 0, vy = v, onGround = False\<rparr>"

text \<open>
  A player at rest whose top is inside the lower part of a block that spans y from 0 to
  100, and the same with the block spanning y from 1080 to 1120, next to the fall-out line
  at 1100.
\<close>

definition bumpGame :: Game where
  "bumpGame =
     \<lparr>player = \<lparr>x = 100, y = 90, width = 20, height = 20, vx = 0, vy = 0, onGround = False\<rparr>,
      platforms = [\<lparr>x = 0, y = 0, width = 1600, height = 100, blockType = DirtType\<rparr>],
      camera = \<lparr>x_cam = 0, y_cam = 0\<rparr>, score = 0, gameStarted = True\<rparr>"

definition sinkGame :: Game where
  "sinkGame =
     \<lparr>player = \<lparr>x = 100, y = 1095, width = 20, height = 20, vx = 0, vy = 0, onGround = False\<rparr>,
      platforms = [\<lparr>x = 0, y = 1080, width = 1600, height = 40, blockType = DirtType\<rparr>],
      camera = \<lparr>x_cam = 0, y_cam = 0\<rparr>, score = 0, gameStarted = True\<rparr>"

text \<open>
  The started game of \<^verbatim>\<open>NewGame\<close> with the player just below the fall-out line, moving
  up with the speed of a jump.
\<close>

definition risingGame :: Game where
  "risingGame =
     NewGame\<lparr>player := spawnPlayer\<lparr>y := 1101, vy := jumpPower\<rparr>, gameStarted := True\<rparr>"

text \<open>
  W newly pressed and nothing else; the started game of \<^verbatim>\<open>NewGame\<close> with the player
  marked as on the ground.
\<close>

definition pressW :: Keys where
  "pressW = idle\<lparr>keyW_just := True\<rparr>"

definition jumpGame :: Game where
  "jumpGame = NewGame\<lparr>player := spawnPlayer\<lparr>onGround := True\<rparr>, gameStarted := True\<rparr>"

section \<open>Properties\<close>

subsection \<open>What each stage touches\<close>

lemma platforms_stages [simp]:
  "platforms (handleInput k g) = platforms g"
  "platforms (applyPhysics g) = platforms g"
  "platforms (updatePlayerPosition g) = platforms g"
  "platforms (checkCollisions g) = platforms g"
  "platforms (updateCamera g) = platforms g"
  by (simp_all add: handleInput_def applyPhysics_def updatePlayerPosition_def
        checkCollisions_def updateCamera_def Let_def)

lemma player_updateCamera [simp]: "player (updateCamera g) = player g"
  by (simp add: updateCamera_def Let_def)

lemma applyPhysics_player:
  "player (applyPhysics g) =
     (player g)\<lparr>vx := vx (player g) * airResistance,
                vy := min 10 (if onGround (player g) then vy (player g)
                              else vy (player g) + gravity)\<rparr>"
  by (simp add: applyPhysics_def Let_def min_def)

lemma updatePlayerPosition_player:
  "player (updatePlayerPosition g) =
     (player g)\<lparr>x := x (player g) + vx (player g), y := y (player g) + vy (player g)\<rparr>"
  by (simp add: updatePlayerPosition_def Let_def)

lemma handleInput_no_jump:
  "\<not> keyW_just k \<Longrightarrow>
     vy (player (handleInput k g)) = vy (player g) \<and> y (player (handleInput k g)) = y (player g)"
  by (simp add: handleInput_def Let_def)

subsection \<open>Intersection test\<close>

lemma overlapArea_pos_iff:
  "0 < overlapArea a b \<longleftrightarrow>
     max (x a) (x b) < min (x a + width a) (x b + width b) \<and>
     max (y a) (y b) < min (y a + height a) (y b + height b)"
  unfolding overlapArea_def by (auto simp: zero_less_mult_iff max_def min_def)

text \<open>
  C4. The intersection test holds exactly when the four strict inequalities hold. It is
  false for boxes that are apart or share only an edge, and for boxes of positive width and
  height (the invariant of the data model) it holds exactly when the common area is not zero.
\<close>

theorem checkCollision_strict_overlap:
  "(checkCollision a b \<longleftrightarrow>
      x a < x b + width b \<and> x a + width a > x b \<and> y a < y b + height b \<and> y a + height a > y b)
   \<and> (x a + width a \<le> x b \<or> x b + width b \<le> x a \<or>
       y a + height a \<le> y b \<or> y b + height b \<le> y a \<longrightarrow> \<not> checkCollision a b)
   \<and> (0 < width a \<and> 0 < height a \<and> 0 < width b \<and> 0 < height b \<longrightarrow>
       (checkCollision a b \<longleftrightarrow> 0 < overlapArea a b))"
proof (intro conjI impI)
  show "checkCollision a b \<longleftrightarrow>
      x a < x b + width b \<and> x a + width a > x b \<and> y a < y b + height b \<and> y a + height a > y b"
    by (simp add: checkCollision_def)
next
  assume "x a + width a \<le> x b \<or> x b + width b \<le> x a \<or>
       y a + height a \<le> y b \<or> y b + height b \<le> y a"
  then show "\<not> checkCollision a b"
    unfolding checkCollision_def by linarith
next
  assume "0 < width a \<and> 0 < height a \<and> 0 < width b \<and> 0 < height b"
  then show "checkCollision a b \<longleftrightarrow> 0 < overlapArea a b"
    unfolding overlapArea_pos_iff checkCollision_def by (auto simp: max_def min_def)
qed

text \<open>
  Two boxes that share the edge at 10 do not intersect and have no common area; two boxes
  that share the square from (9, 9) to (10, 10) intersect.
\<close>

theorem checkCollision_strict_overlap_witness:
  "0 < width \<lparr>x = 0, y = 0, width = 10, height = 10\<rparr> \<and>
   x \<lparr>x = 0, y = 0, width = 10, height = 10\<rparr> + width \<lparr>x = 0, y = 0, width = 10, height = 10\<rparr>
     \<le> x \<lparr>x = 10, y = 0, width = 5, height = 5\<rparr> \<and>
   \<not> checkCollision \<lparr>x = 0, y = 0, width = 10, height = 10\<rparr> \<lparr>x = 10, y = 0, width = 5, height = 5\<rparr> \<and>
   overlapArea \<lparr>x = 0, y = 0, width = 10, height = 10\<rparr> \<lparr>x = 10, y = 0, width = 5, height = 5\<rparr> = 0 \<and>
   checkCollision \<lparr>x = 0, y = 0, width = 10, height = 10\<rparr> \<lparr>x = 9, y = 9, width = 5, height = 5\<rparr> \<and>
   0 < overlapArea \<lparr>x = 0, y = 0, width = 10, height = 10\<rparr> \<lparr>x = 9, y = 9, width = 5, height = 5\<rparr>"
  using checkCollision_strict_overlap
          [of "\<lparr>x = 0, y = 0, width = 10, height = 10\<rparr>" "\<lparr>x = 10, y = 0, width = 5, height = 5\<rparr>"]
        checkCollision_strict_overlap
          [of "\<lparr>x = 0, y = 0, width = 10, height = 10\<rparr>" "\<lparr>x = 9, y = 9, width = 5, height = 5\<rparr>"]
  by (simp add: overlapArea_def)

subsection \<open>Physics and integration\<close>

text \<open>
  C5. The physics step adds gravity to vy exactly when the player is not on the ground,
  multiplies vx by the air resistance in both cases and caps vy at 10 from above, so that a
  vy of at most 10 (every upward one too) stays as it is; it changes nothing else. The
  position update adds the velocity to the position, component by component.
\<close>

theorem applyPhysics_then_integrate:
  "vy (player (applyPhysics g)) =
     min 10 (if onGround (player g) then vy (player g) else vy (player g) + gravity)
   \<and> vx (player (applyPhysics g)) = vx (player g) * airResistance
   \<and> vy (player (applyPhysics g)) \<le> 10
   \<and> applyPhysics g =
       g\<lparr>player := (player g)\<lparr>vx := vx (player (applyPhysics g)),
                               vy := vy (player (applyPhysics g))\<rparr>\<rparr>
   \<and> updatePlayerPosition g =
       g\<lparr>player := (player g)\<lparr>x := x (player g) + vx (player g),
                               y := y (player g) + vy (player g)\<rparr>\<rparr>"
  by (simp add: applyPhysics_def updatePlayerPosition_def Let_def min_def)

subsection \<open>Jump\<close>

lemma canJump_loop_iff: "canJump_loop t bs \<longleftrightarrow> (\<exists>b \<in> set bs. checkCollision t b)"
  by (induction bs) auto

text \<open>
  C6. A jump is permitted exactly when the player is on the ground or the box with the
  player's x, width and height at y + 1 intersects a block of the list. \<open>canJump\<close> returns
  a truth value and no state: it modifies nothing.
\<close>

theorem canJump_grounded_or_probe:
  "canJump g \<longleftrightarrow>
     onGround (player g) \<or>
     (\<exists>b \<in> set (platforms g).
        checkCollision \<lparr>x = x (player g), y = y (player g) + 1,
                        width = width (player g), height = height (player g)\<rparr> b)"
  by (simp add: canJump_def Let_def canJump_loop_iff checkCollision_def)

text \<open>
  In the air at the spawn position no jump is permitted; standing on the ground block
  (y = 540) without the flag, the probe permits it.
\<close>

theorem canJump_grounded_or_probe_witness:
  "\<not> onGround (player (NewGame\<lparr>player := (player NewGame)\<lparr>y := 540\<rparr>\<rparr>)) \<and>
   canJump (NewGame\<lparr>player := (player NewGame)\<lparr>y := 540\<rparr>\<rparr>) \<and>
   \<not> canJump NewGame"
  using canJump_grounded_or_probe [of "NewGame\<lparr>player := (player NewGame)\<lparr>y := 540\<rparr>\<rparr>"]
        canJump_grounded_or_probe [of NewGame]
  by (simp add: NewGame_def checkCollision_def screenHeight_def screenWidth_def)

subsection \<open>Collision resolution\<close>

text \<open>
  The loop body with the four depths and their minimum as named functions of the player
  and the block; the later proofs use this form.
\<close>

lemma resolveBlock_alt:
  "resolveBlock p b =
     (if checkCollision p b then
        if minDepth p b = depth_dx1 p b then p\<lparr>x := x b - width p, vx := 0\<rparr>
        else if minDepth p b = depth_dx2 p b then p\<lparr>x := x b + width b, vx := 0\<rparr>
        else if minDepth p b = depth_dy1 p b then
          (if vy p < 0 then p\<lparr>y := y b - height p, vy := 0\<rparr> else p\<lparr>y := y b - height p\<rparr>)
        else if minDepth p b = depth_dy2 p b then
          (if vy p \<ge> 0 then p\<lparr>y := y b + height b, vy := 0, onGround := True\<rparr>
           else p\<lparr>y := y b + height b\<rparr>)
        else p
      else p)"
  unfolding resolveBlock_def minDepth_def depth_dx1_def depth_dx2_def depth_dy1_def
    depth_dy2_def Let_def
  by (simp split del: if_split cong: if_cong)

lemma takesLanding_alt:
  "takesLanding p b \<longleftrightarrow>
     checkCollision p b \<and> minDepth p b \<noteq> depth_dx1 p b \<and> minDepth p b \<noteq> depth_dx2 p b \<and>
     minDepth p b \<noteq> depth_dy1 p b \<and> minDepth p b = depth_dy2 p b \<and> vy p \<ge> 0"
  unfolding takesLanding_def minDepth_def depth_dx1_def depth_dx2_def depth_dy1_def
    depth_dy2_def Let_def
  by (simp only: conj_assoc)

lemma depth_flag [simp]:
  "depth_dx1 (p\<lparr>onGround := f\<rparr>) b = depth_dx1 p b"
  "depth_dx2 (p\<lparr>onGround := f\<rparr>) b = depth_dx2 p b"
  "depth_dy1 (p\<lparr>onGround := f\<rparr>) b = depth_dy1 p b"
  "depth_dy2 (p\<lparr>onGround := f\<rparr>) b = depth_dy2 p b"
  "minDepth (p\<lparr>onGround := f\<rparr>) b = minDepth p b"
  "checkCollision (p\<lparr>onGround := f\<rparr>) b = checkCollision p b"
  by (simp_all add: depth_dx1_def depth_dx2_def depth_dy1_def depth_dy2_def minDepth_def
        checkCollision_def)

lemma takesLanding_flag [simp]: "takesLanding (p\<lparr>onGround := f\<rparr>) b = takesLanding p b"
  by (simp add: takesLanding_alt)

lemma resolveBlock_flag:
  "(resolveBlock (p\<lparr>onGround := f\<rparr>) b)\<lparr>onGround := f'\<rparr> = (resolveBlock p b)\<lparr>onGround := f'\<rparr>"
  by (simp add: resolveBlock_alt)

lemma resolveBlock_onGround:
  "onGround (resolveBlock p b) \<longleftrightarrow> onGround p \<or> takesLanding p b"
  by (auto simp: resolveBlock_alt takesLanding_alt)

lemma collisionLoop_foldl: "collisionLoop p bs = foldl resolveBlock p bs"
  by (induction bs arbitrary: p) auto

lemma collisionLoop_no_hit:
  "\<forall>b \<in> set bs. \<not> checkCollision p b \<Longrightarrow> collisionLoop p bs = p"
  by (induction bs) (simp_all add: resolveBlock_def)

text \<open>Which branch the loop body takes, by the order of the four depths.\<close>

lemma resolveBlock_cases:
  assumes "checkCollision p b"
  shows "depth_dx1 p b \<le> depth_dx2 p b \<and> depth_dx1 p b \<le> depth_dy1 p b \<and>
         depth_dx1 p b \<le> depth_dy2 p b \<longrightarrow>
           resolveBlock p b = p\<lparr>x := x b - width p, vx := 0\<rparr>"
    and "depth_dx2 p b < depth_dx1 p b \<and> depth_dx2 p b \<le> depth_dy1 p b \<and>
         depth_dx2 p b \<le> depth_dy2 p b \<longrightarrow>
           resolveBlock p b = p\<lparr>x := x b + width b, vx := 0\<rparr>"
    and "depth_dy1 p b < depth_dx1 p b \<and> depth_dy1 p b < depth_dx2 p b \<and>
         depth_dy1 p b \<le> depth_dy2 p b \<longrightarrow>
           resolveBlock p b = p\<lparr>y := y b - height p, vy := (if vy p < 0 then 0 else vy p)\<rparr>"
    and "depth_dy2 p b < depth_dx1 p b \<and> depth_dy2 p b < depth_dx2 p b \<and>
         depth_dy2 p b < depth_dy1 p b \<longrightarrow>
           resolveBlock p b = p\<lparr>y := y b + height b, vy := (if vy p \<ge> 0 then 0 else vy p),
                                onGround := (vy p \<ge> 0 \<or> onGround p)\<rparr>"
  using assms by (auto simp: resolveBlock_alt minDepth_def min_def)

lemma depth_order_cases:
  "(depth_dx1 p b \<le> depth_dx2 p b \<and> depth_dx1 p b \<le> depth_dy1 p b \<and>
    depth_dx1 p b \<le> depth_dy2 p b) \<or>
   (depth_dx2 p b < depth_dx1 p b \<and> depth_dx2 p b \<le> depth_dy1 p b \<and>
    depth_dx2 p b \<le> depth_dy2 p b) \<or>
   (depth_dy1 p b < depth_dx1 p b \<and> depth_dy1 p b < depth_dx2 p b \<and>
    depth_dy1 p b \<le> depth_dy2 p b) \<or>
   (depth_dy2 p b < depth_dx1 p b \<and> depth_dy2 p b < depth_dx2 p b \<and>
    depth_dy2 p b < depth_dy1 p b)"
  by linarith

text \<open>
  C2. A block that does not intersect the player leaves it as it is. For a block that
  does, the resolver takes the branch of the smallest of the depths dx1, dx2, dy1, dy2,
  the first in this order among equal ones, and one of the four always applies:
  dx1 puts x at the block's left face minus the player's width and zeroes vx; dx2 puts x at
  the block's right face and zeroes vx; dy1 (the branch the source calls the head hit) puts
  y at block.y minus the player's height and zeroes vy only if vy < 0; dy2 (the branch the
  source calls the landing) puts y at block.y plus the block's height and, only if vy >= 0,
  zeroes vy and sets onGround. The pass applies this to the blocks one after the other, in
  the order of the list, starting with onGround cleared.
\<close>

theorem resolveBlock_smallest_depth:
  "(\<not> checkCollision p b \<longrightarrow> resolveBlock p b = p) \<and>
   (checkCollision p b \<longrightarrow>
      (depth_dx1 p b \<le> depth_dx2 p b \<and> depth_dx1 p b \<le> depth_dy1 p b \<and>
       depth_dx1 p b \<le> depth_dy2 p b \<longrightarrow>
         resolveBlock p b = p\<lparr>x := x b - width p, vx := 0\<rparr>) \<and>
      (depth_dx2 p b < depth_dx1 p b \<and> depth_dx2 p b \<le> depth_dy1 p b \<and>
       depth_dx2 p b \<le> depth_dy2 p b \<longrightarrow>
         resolveBlock p b = p\<lparr>x := x b + width b, vx := 0\<rparr>) \<and>
      (depth_dy1 p b < depth_dx1 p b \<and> depth_dy1 p b < depth_dx2 p b \<and>
       depth_dy1 p b \<le> depth_dy2 p b \<longrightarrow>
         resolveBlock p b = p\<lparr>y := y b - height p, vy := (if vy p < 0 then 0 else vy p)\<rparr>) \<and>
      (depth_dy2 p b < depth_dx1 p b \<and> depth_dy2 p b < depth_dx2 p b \<and>
       depth_dy2 p b < depth_dy1 p b \<longrightarrow>
         resolveBlock p b = p\<lparr>y := y b + height b, vy := (if vy p \<ge> 0 then 0 else vy p),
                              onGround := (vy p \<ge> 0 \<or> onGround p)\<rparr>)) \<and>
   ((depth_dx1 p b \<le> depth_dx2 p b \<and> depth_dx1 p b \<le> depth_dy1 p b \<and>
     depth_dx1 p b \<le> depth_dy2 p b) \<or>
    (depth_dx2 p b < depth_dx1 p b \<and> depth_dx2 p b \<le> depth_dy1 p b \<and>
     depth_dx2 p b \<le> depth_dy2 p b) \<or>
    (depth_dy1 p b < depth_dx1 p b \<and> depth_dy1 p b < depth_dx2 p b \<and>
     depth_dy1 p b \<le> depth_dy2 p b) \<or>
    (depth_dy2 p b < depth_dx1 p b \<and> depth_dy2 p b < depth_dx2 p b \<and>
     depth_dy2 p b < depth_dy1 p b)) \<and>
   player (checkCollisions g) =
     foldl resolveBlock ((player g)\<lparr>onGround := False\<rparr>) (platforms g)"
proof (intro conjI)
  show "\<not> checkCollision p b \<longrightarrow> resolveBlock p b = p"
    by (simp add: resolveBlock_def)
  show "player (checkCollisions g) =
     foldl resolveBlock ((player g)\<lparr>onGround := False\<rparr>) (platforms g)"
    by (simp add: checkCollisions_def collisionLoop_foldl)
  show "(depth_dx1 p b \<le> depth_dx2 p b \<and> depth_dx1 p b \<le> depth_dy1 p b \<and>
     depth_dx1 p b \<le> depth_dy2 p b) \<or>
    (depth_dx2 p b < depth_dx1 p b \<and> depth_dx2 p b \<le> depth_dy1 p b \<and>
     depth_dx2 p b \<le> depth_dy2 p b) \<or>
    (depth_dy1 p b < depth_dx1 p b \<and> depth_dy1 p b < depth_dx2 p b \<and>
     depth_dy1 p b \<le> depth_dy2 p b) \<or>
    (depth_dy2 p b < depth_dx1 p b \<and> depth_dy2 p b < depth_dx2 p b \<and>
     depth_dy2 p b < depth_dy1 p b)"
    by (rule depth_order_cases)
  show "checkCollision p b \<longrightarrow>
      (depth_dx1 p b \<le> depth_dx2 p b \<and> depth_dx1 p b \<le> depth_dy1 p b \<and>
       depth_dx1 p b \<le> depth_dy2 p b \<longrightarrow>
         resolveBlock p b = p\<lparr>x := x b - width p, vx := 0\<rparr>) \<and>
      (depth_dx2 p b < depth_dx1 p b \<and> depth_dx2 p b \<le> depth_dy1 p b \<and>
       depth_dx2 p b \<le> depth_dy2 p b \<longrightarrow>
         resolveBlock p b = p\<lparr>x := x b + width b, vx := 0\<rparr>) \<and>
      (depth_dy1 p b < depth_dx1 p b \<and> depth_dy1 p b < depth_dx2 p b \<and>
       depth_dy1 p b \<le> depth_dy2 p b \<longrightarrow>
         resolveBlock p b = p\<lparr>y := y b - height p, vy := (if vy p < 0 then 0 else vy p)\<rparr>) \<and>
      (depth_dy2 p b < depth_dx1 p b \<and> depth_dy2 p b < depth_dx2 p b \<and>
       depth_dy2 p b < depth_dy1 p b \<longrightarrow>
         resolveBlock p b = p\<lparr>y := y b + height b, vy := (if vy p \<ge> 0 then 0 else vy p),
                              onGround := (vy p \<ge> 0 \<or> onGround p)\<rparr>)"
    using resolveBlock_cases [of p b] by blast
qed

text \<open>
  With dx1 and dy1 both 5 and smallest, the dx1 branch wins the tie. With dy2 = 5 the
  smallest and vy = 2, the dy2 branch puts the player below the block, zeroes vy and sets
  onGround.
\<close>

theorem resolveBlock_smallest_depth_witness:
  "checkCollision \<lparr>x = 0, y = 0, width = 20, height = 20, vx = 3, vy = 2, onGround = False\<rparr>
                  \<lparr>x = 15, y = 15, width = 100, height = 100, blockType = 0\<rparr> \<and>
   depth_dx1 \<lparr>x = 0, y = 0, width = 20, height = 20, vx = 3, vy = 2, onGround = False\<rparr>
             \<lparr>x = 15, y = 15, width = 100, height = 100, blockType = 0\<rparr> =
   depth_dy1 \<lparr>x = 0, y = 0, width = 20, height = 20, vx = 3, vy = 2, onGround = False\<rparr>
             \<lparr>x = 15, y = 15, width = 100, height = 100, blockType = 0\<rparr> \<and>
   resolveBlock \<lparr>x = 0, y = 0, width = 20, height = 20, vx = 3, vy = 2, onGround = False\<rparr>
                \<lparr>x = 15, y = 15, width = 100, height = 100, blockType = 0\<rparr> =
     \<lparr>x = - 5, y = 0, width = 20, height = 20, vx = 0, vy = 2, onGround = False\<rparr> \<and>
   checkCollision \<lparr>x = 100, y = 95, width = 20, height = 20, vx = 0, vy = 2, onGround = False\<rparr>
                  \<lparr>x = 0, y = 0, width = 1600, height = 100, blockType = 0\<rparr> \<and>
   resolveBlock \<lparr>x = 100, y = 95, width = 20, height = 20, vx = 0, vy = 2, onGround = False\<rparr>
                \<lparr>x = 0, y = 0, width = 1600, height = 100, blockType = 0\<rparr> =
     \<lparr>x = 100, y = 100, width = 20, height = 20, vx = 0, vy = 0, onGround = True\<rparr>"
  using resolveBlock_smallest_depth
          [of "\<lparr>x = 0, y = 0, width = 20, height = 20, vx = 3, vy = 2, onGround = False\<rparr>"
              "\<lparr>x = 15, y = 15, width = 100, height = 100, blockType = 0\<rparr>"]
        resolveBlock_smallest_depth
          [of "\<lparr>x = 100, y = 95, width = 20, height = 20, vx = 0, vy = 2, onGround = False\<rparr>"
              "\<lparr>x = 0, y = 0, width = 1600, height = 100, blockType = 0\<rparr>"]
  by (simp add: checkCollision_def depth_dx1_def depth_dx2_def depth_dy1_def depth_dy2_def)

subsection \<open>The grounded flag\<close>

lemma landedInPass_flag [simp]:
  "landedInPass (p\<lparr>onGround := f\<rparr>) bs = landedInPass p bs"
proof (induction bs arbitrary: p f)
  case Nil
  show ?case by simp
next
  case (Cons b bs)
  let ?q = "resolveBlock (p\<lparr>onGround := f\<rparr>) b"
  have "landedInPass ?q bs = landedInPass (?q\<lparr>onGround := True\<rparr>) bs"
    by (simp only: Cons.IH)
  also have "\<dots> = landedInPass ((resolveBlock p b)\<lparr>onGround := True\<rparr>) bs"
    by (simp only: resolveBlock_flag)
  also have "\<dots> = landedInPass (resolveBlock p b) bs"
    by (simp only: Cons.IH)
  finally show ?case by simp
qed

lemma collisionLoop_onGround:
  "onGround (collisionLoop p bs) \<longleftrightarrow> onGround p \<or> landedInPass p bs"
  by (induction bs arbitrary: p) (auto simp: resolveBlock_onGround)

text \<open>
  C3, amended. The collision pass starts from onGround = false whatever the flag was
  before, and at its end onGround is true exactly when the resolution of some block of that
  pass took the dy2 branch (the landing of the source) with vy >= 0. At the end of a tick
  of the started game onGround is true exactly when that happened and the boundary check
  did not reset the player.
\<close>

theorem onGround_fresh_each_pass:
  "(onGround (player (checkCollisions g)) \<longleftrightarrow>
      landedInPass ((player g)\<lparr>onGround := False\<rparr>) (platforms g))
   \<and> checkCollisions (g\<lparr>player := (player g)\<lparr>onGround := f\<rparr>\<rparr>) = checkCollisions g
   \<and> (gameStarted g \<longrightarrow>
       (onGround (player (Update k g)) \<longleftrightarrow>
          landedInPass
            ((player (updatePlayerPosition (applyPhysics (handleInput k g))))\<lparr>onGround := False\<rparr>)
            (platforms g) \<and>
          \<not> y (player (checkCollisions (updatePlayerPosition (applyPhysics (handleInput k g)))))
              > screenHeight + 500))"
proof (intro conjI impI)
  show "onGround (player (checkCollisions g)) \<longleftrightarrow>
      landedInPass ((player g)\<lparr>onGround := False\<rparr>) (platforms g)"
    by (simp add: checkCollisions_def collisionLoop_onGround)
  show "checkCollisions (g\<lparr>player := (player g)\<lparr>onGround := f\<rparr>\<rparr>) = checkCollisions g"
    by (simp add: checkCollisions_def)
next
  assume st: "gameStarted g"
  let ?g1 = "updatePlayerPosition (applyPhysics (handleInput k g))"
  have ground: "onGround (player (checkCollisions ?g1)) \<longleftrightarrow>
      landedInPass (player ?g1) (platforms g)"
    by (simp add: checkCollisions_def collisionLoop_onGround)
  have "Update k g = checkBoundaries (updateCamera (checkCollisions ?g1))"
    using st by (simp add: Update_def)
  then show "onGround (player (Update k g)) \<longleftrightarrow>
          landedInPass ((player ?g1)\<lparr>onGround := False\<rparr>) (platforms g) \<and>
          \<not> y (player (checkCollisions ?g1)) > screenHeight + 500"
    using ground by (simp add: checkBoundaries_def resetGame_def)
qed

text \<open>
  In \<open>bumpGame\<close> the tick moves the player to y = 90.3, the dy2 branch puts it at
  y = 100 below the block, and the tick ends with onGround set.
\<close>

theorem onGround_fresh_each_pass_witness:
  "gameStarted bumpGame \<and> onGround (player (Update idle bumpGame))"
proof -
  let ?p = "\<lparr>x = 100, y = 903 / 10, width = 20, height = 20, vx = 0, vy = 3 / 10, onGround = False\<rparr>"
  let ?b = "\<lparr>x = 0, y = 0, width = 1600, height = 100, blockType = DirtType\<rparr>"
  have pre: "updatePlayerPosition (applyPhysics (handleInput idle bumpGame)) =
      bumpGame\<lparr>player := ?p\<rparr>"
    by (simp add: bumpGame_def idle_def handleInput_def applyPhysics_def
        updatePlayerPosition_def Let_def gravity_def)
  have land: "takesLanding ?p ?b"
    by (simp add: takesLanding_alt checkCollision_def minDepth_def depth_dx1_def depth_dx2_def
          depth_dy1_def depth_dy2_def)
  have res: "resolveBlock ?p ?b = ?p\<lparr>y := 100, vy := 0, onGround := True\<rparr>"
    by (simp add: resolveBlock_alt checkCollision_def minDepth_def depth_dx1_def depth_dx2_def
          depth_dy1_def depth_dy2_def)
  have coll: "checkCollisions (bumpGame\<lparr>player := ?p\<rparr>) =
      bumpGame\<lparr>player := ?p\<lparr>y := 100, vy := 0, onGround := True\<rparr>\<rparr>"
    using res by (simp add: checkCollisions_def bumpGame_def)
  have st: "gameStarted bumpGame" and pl: "platforms bumpGame = [?b]"
    by (simp_all add: bumpGame_def)
  have "landedInPass (?p\<lparr>onGround := False\<rparr>) (platforms bumpGame)"
    using land by (simp add: pl)
  moreover have "\<not> y (player (checkCollisions (bumpGame\<lparr>player := ?p\<rparr>))) > screenHeight + 500"
    unfolding coll by (simp add: screenHeight_def)
  ultimately show ?thesis
    using onGround_fresh_each_pass [of bumpGame False idle] st by (simp add: pre)
qed

text \<open>
  C3 as stated fails in \<open>sinkGame\<close>: the pass takes the dy2 branch with vy = 0.3 and
  sets onGround, the player is then at y = 1120, beyond the fall-out line, and the reset
  ends the tick with onGround = false.
\<close>

theorem onGround_end_of_tick_counterexample:
  "landedInPass
     ((player (updatePlayerPosition (applyPhysics (handleInput idle sinkGame))))\<lparr>onGround := False\<rparr>)
     (platforms sinkGame) \<and>
   \<not> onGround (player (Update idle sinkGame))"
proof -
  let ?p = "\<lparr>x = 100, y = 10953 / 10, width = 20, height = 20, vx = 0, vy = 3 / 10, onGround = False\<rparr>"
  let ?b = "\<lparr>x = 0, y = 1080, width = 1600, height = 40, blockType = DirtType\<rparr>"
  have pre: "updatePlayerPosition (applyPhysics (handleInput idle sinkGame)) =
      sinkGame\<lparr>player := ?p\<rparr>"
    by (simp add: sinkGame_def idle_def handleInput_def applyPhysics_def
        updatePlayerPosition_def Let_def gravity_def)
  have land: "takesLanding ?p ?b"
    by (simp add: takesLanding_alt checkCollision_def minDepth_def depth_dx1_def depth_dx2_def
          depth_dy1_def depth_dy2_def)
  have res: "resolveBlock ?p ?b = ?p\<lparr>y := 1120, vy := 0, onGround := True\<rparr>"
    by (simp add: resolveBlock_alt checkCollision_def minDepth_def depth_dx1_def depth_dx2_def
          depth_dy1_def depth_dy2_def)
  have coll: "checkCollisions (sinkGame\<lparr>player := ?p\<rparr>) =
      sinkGame\<lparr>player := ?p\<lparr>y := 1120, vy := 0, onGround := True\<rparr>\<rparr>"
    using res by (simp add: checkCollisions_def sinkGame_def)
  have upd: "Update idle sinkGame =
      checkBoundaries (updateCamera (checkCollisions (sinkGame\<lparr>player := ?p\<rparr>)))"
    by (simp add: Update_def pre) (simp add: sinkGame_def)
  have "\<not> onGround (player (Update idle sinkGame))"
    unfolding upd coll by (simp add: checkBoundaries_def resetGame_def screenHeight_def)
  moreover have "landedInPass (?p\<lparr>onGround := False\<rparr>) (platforms sinkGame)"
    using land by (simp add: sinkGame_def)
  ultimately show ?thesis by (simp add: pre)
qed

subsection \<open>The jump through the tick\<close>

lemma resolveBlock_vy: "vy (resolveBlock p b) = vy p \<or> vy (resolveBlock p b) = 0"
  by (simp add: resolveBlock_alt)

lemma collisionLoop_vy: "vy (collisionLoop p bs) = vy p \<or> vy (collisionLoop p bs) = 0"
proof (induction bs arbitrary: p)
  case Nil
  show ?case by simp
next
  case (Cons b bs)
  from Cons.IH [of "resolveBlock p b"] resolveBlock_vy [of p b]
  show ?case by auto
qed

lemma handleInput_jump:
  assumes "onGround (player g)" and "keyW_just k"
  shows "vy (player (handleInput k g)) = jumpPower" "\<not> onGround (player (handleInput k g))"
    "y (player (handleInput k g)) = y (player g)"
  using assms by (simp_all add: handleInput_def canJump_def Let_def)

lemma jump_after_move:
  assumes "onGround (player g)" and "keyW_just k"
  shows "vy (player (updatePlayerPosition (applyPhysics (handleInput k g)))) = jumpPower + gravity"
    "y (player (updatePlayerPosition (applyPhysics (handleInput k g)))) =
       y (player g) + (jumpPower + gravity)"
    "\<not> onGround (player (updatePlayerPosition (applyPhysics (handleInput k g))))"
  using handleInput_jump [OF assms]
  by (simp_all add: updatePlayerPosition_player applyPhysics_player jumpPower_def gravity_def)

lemma no_hit_above_NewGame_blocks:
  "y p + height p \<le> 220 \<Longrightarrow> collisionLoop p (platforms NewGame) = p"
  by (rule collisionLoop_no_hit) (simp add: NewGame_def checkCollision_def screenHeight_def)

lemma tick_no_hit:
  assumes "gameStarted g"
    and "\<not> onGround (player (updatePlayerPosition (applyPhysics (handleInput k g))))"
    and "\<forall>b \<in> set (platforms g).
           \<not> checkCollision (player (updatePlayerPosition (applyPhysics (handleInput k g)))) b"
    and "\<not> y (player (updatePlayerPosition (applyPhysics (handleInput k g)))) > screenHeight + 500"
  shows "player (Update k g) = player (updatePlayerPosition (applyPhysics (handleInput k g)))"
proof -
  let ?g1 = "updatePlayerPosition (applyPhysics (handleInput k g))"
  have same: "(player ?g1)\<lparr>onGround := False\<rparr> = player ?g1"
    using assms(2) by (cases "player ?g1") simp
  have "collisionLoop ((player ?g1)\<lparr>onGround := False\<rparr>) (platforms ?g1) =
      (player ?g1)\<lparr>onGround := False\<rparr>"
    using assms(3) by (intro collisionLoop_no_hit) simp
  then have "player (checkCollisions ?g1) = player ?g1"
    by (simp add: checkCollisions_def same)
  then show ?thesis
    using assms(1,4) by (simp add: Update_def checkBoundaries_def)
qed

lemma tick_vy:
  assumes "gameStarted g"
  shows "vy (player (Update k g)) = vy (player (updatePlayerPosition (applyPhysics (handleInput k g))))
       \<or> vy (player (Update k g)) = 0"
proof -
  let ?g1 = "updatePlayerPosition (applyPhysics (handleInput k g))"
  have "vy (player (checkCollisions ?g1)) = vy (player ?g1) \<or> vy (player (checkCollisions ?g1)) = 0"
    using collisionLoop_vy [of "(player ?g1)\<lparr>onGround := False\<rparr>" "platforms ?g1"]
    by (simp add: checkCollisions_def)
  then show ?thesis
    using assms by (auto simp: Update_def checkBoundaries_def resetGame_def)
qed

lemma tick_onGround:
  assumes "gameStarted g"
  shows "onGround (player (Update k g)) \<longleftrightarrow>
          landedInPass
            ((player (updatePlayerPosition (applyPhysics (handleInput k g))))\<lparr>onGround := False\<rparr>)
            (platforms g) \<and>
          \<not> y (player (checkCollisions (updatePlayerPosition (applyPhysics (handleInput k g)))))
              > screenHeight + 500"
proof -
  let ?g1 = "updatePlayerPosition (applyPhysics (handleInput k g))"
  have ground: "onGround (player (checkCollisions ?g1)) \<longleftrightarrow>
      landedInPass (player ?g1) (platforms g)"
    by (simp add: checkCollisions_def collisionLoop_onGround)
  have "Update k g = checkBoundaries (updateCamera (checkCollisions ?g1))"
    using assms by (simp add: Update_def)
  then show ?thesis
    using ground by (simp add: checkBoundaries_def resetGame_def)
qed

lemma jumpGame_tick:
  "player (Update pressW jumpGame) =
     \<lparr>x = 100, y = 903 / 10, width = 20, height = 20, vx = 0, vy = - (97 / 10), onGround = False\<rparr>"
proof -
  let ?p = "\<lparr>x = 100, y = 903 / 10, width = 20, height = 20, vx = 0, vy = - (97 / 10),
             onGround = False\<rparr>"
  have pre: "player (updatePlayerPosition (applyPhysics (handleInput pressW jumpGame))) = ?p"
    by (simp add: jumpGame_def spawnPlayer_def pressW_def idle_def handleInput_def canJump_def
        applyPhysics_def updatePlayerPosition_def Let_def gravity_def jumpPower_def
        airResistance_def)
  have st: "gameStarted jumpGame" and pl: "platforms jumpGame = platforms NewGame"
    by (simp_all add: jumpGame_def)
  have "collisionLoop ?p (platforms NewGame) = ?p"
    by (rule no_hit_above_NewGame_blocks) simp
  then have "player (checkCollisions (updatePlayerPosition (applyPhysics (handleInput pressW jumpGame)))) = ?p"
    by (simp add: checkCollisions_def pre pl)
  then show ?thesis
    using st by (simp add: Update_def checkBoundaries_def screenHeight_def)
qed

text \<open>
  C7, amended. In a tick of the started game with the player on the ground at its start and
  W newly pressed, the input stage sets vy to exactly the jump power and clears onGround.
  The physics stage of the same tick finds the flag cleared and adds gravity, and the
  position update moves the player up by jump power plus gravity. The tick therefore ends
  with vy = jump power + gravity (- 9.7), or with vy = 0 when a collision or the reset
  zeroed it, never with the jump power itself. When the moved player meets no block and is
  not beyond the fall-out line, the tick ends with exactly the moved player: vy = jump
  power + gravity and onGround = false. In general onGround at the end of the tick is what
  the collision pass and the reset of that tick leave.
\<close>

theorem jump_tick:
  assumes "gameStarted g" and "onGround (player g)" and "keyW_just k"
  shows "vy (player (handleInput k g)) = jumpPower \<and>
         \<not> onGround (player (handleInput k g)) \<and>
         vy (player (updatePlayerPosition (applyPhysics (handleInput k g)))) = jumpPower + gravity \<and>
         y (player (updatePlayerPosition (applyPhysics (handleInput k g)))) =
           y (player g) + (jumpPower + gravity) \<and>
         (vy (player (Update k g)) = jumpPower + gravity \<or> vy (player (Update k g)) = 0) \<and>
         vy (player (Update k g)) \<noteq> jumpPower \<and>
         ((\<forall>b \<in> set (platforms g).
             \<not> checkCollision (player (updatePlayerPosition (applyPhysics (handleInput k g)))) b) \<and>
          \<not> y (player g) + (jumpPower + gravity) > screenHeight + 500 \<longrightarrow>
            player (Update k g) = player (updatePlayerPosition (applyPhysics (handleInput k g))) \<and>
            vy (player (Update k g)) = jumpPower + gravity \<and>
            y (player (Update k g)) = y (player g) + (jumpPower + gravity) \<and>
            \<not> onGround (player (Update k g))) \<and>
         (onGround (player (Update k g)) \<longleftrightarrow>
            landedInPass
              ((player (updatePlayerPosition (applyPhysics (handleInput k g))))\<lparr>onGround := False\<rparr>)
              (platforms g) \<and>
            \<not> y (player (checkCollisions (updatePlayerPosition (applyPhysics (handleInput k g)))))
                > screenHeight + 500)"
proof -
  let ?g1 = "updatePlayerPosition (applyPhysics (handleInput k g))"
  note inp = handleInput_jump [OF assms(2,3)]
  note mv = jump_after_move [OF assms(2,3)]
  have end_vy: "vy (player (Update k g)) = jumpPower + gravity \<or> vy (player (Update k g)) = 0"
    using tick_vy [OF assms(1), of k] mv(1) by simp
  then have ne: "vy (player (Update k g)) \<noteq> jumpPower"
    by (auto simp: jumpPower_def gravity_def)
  have free: "player (Update k g) = player ?g1 \<and>
            vy (player (Update k g)) = jumpPower + gravity \<and>
            y (player (Update k g)) = y (player g) + (jumpPower + gravity) \<and>
            \<not> onGround (player (Update k g))"
    if "(\<forall>b \<in> set (platforms g). \<not> checkCollision (player ?g1) b) \<and>
          \<not> y (player g) + (jumpPower + gravity) > screenHeight + 500"
  proof -
    have "player (Update k g) = player ?g1"
      using that mv by (intro tick_no_hit [OF assms(1)]) simp_all
    then show ?thesis using mv by simp
  qed
  show ?thesis
    using inp(1,2) mv(1,2) end_vy ne free tick_onGround [OF assms(1), of k] by blast
qed

text \<open>
  In \<open>jumpGame\<close> with W pressed the player leaves the input stage with vy = - 10 and
  ends the tick at y = 90.3, in the air.
\<close>

theorem jump_tick_witness:
  "gameStarted jumpGame \<and> onGround (player jumpGame) \<and> keyW_just pressW \<and>
   vy (player (handleInput pressW jumpGame)) = - 10 \<and>
   \<not> onGround (player (handleInput pressW jumpGame)) \<and>
   y (player (Update pressW jumpGame)) = 903 / 10 \<and>
   \<not> onGround (player (Update pressW jumpGame))"
proof -
  have hyp: "gameStarted jumpGame" "onGround (player jumpGame)" "keyW_just pressW"
    by (simp_all add: jumpGame_def pressW_def)
  let ?p = "player (updatePlayerPosition (applyPhysics (handleInput pressW jumpGame)))"
  have y0: "y (player jumpGame) = 100"
    by (simp add: jumpGame_def spawnPlayer_def)
  have py: "y ?p + height ?p \<le> 220"
    by (simp add: jumpGame_def spawnPlayer_def pressW_def idle_def handleInput_def canJump_def
        applyPhysics_def updatePlayerPosition_def Let_def gravity_def jumpPower_def)
  have clear: "\<forall>b \<in> set (platforms jumpGame). \<not> checkCollision ?p b"
    using py by (simp add: jumpGame_def NewGame_def checkCollision_def screenHeight_def)
  have low: "\<not> y (player jumpGame) + (jumpPower + gravity) > screenHeight + 500"
    by (simp add: y0 jumpPower_def gravity_def screenHeight_def)
  from jump_tick [OF hyp] clear low
  have "vy (player (handleInput pressW jumpGame)) = jumpPower \<and>
        \<not> onGround (player (handleInput pressW jumpGame)) \<and>
        y (player (Update pressW jumpGame)) = y (player jumpGame) + (jumpPower + gravity) \<and>
        \<not> onGround (player (Update pressW jumpGame))"
    by blast
  then show ?thesis
    using hyp by (simp add: y0 jumpPower_def gravity_def)
qed


text \<open>
  C7 as stated, read at the end of the tick, fails in \<open>jumpGame\<close>: the tick ends with
  vy = - 9.7, not with the jump power - 10.
\<close>

theorem jump_end_of_tick_counterexample:
  "gameStarted jumpGame \<and> onGround (player jumpGame) \<and> keyW_just pressW \<and>
   vy (player (Update pressW jumpGame)) = - (97 / 10) \<and>
   vy (player (Update pressW jumpGame)) \<noteq> jumpPower"
  by (simp add: jumpGame_tick) (simp add: jumpGame_def pressW_def jumpPower_def)

subsection \<open>Camera\<close>

text \<open>
  C9. The camera moves each component by a tenth of its distance to the target (the player's
  position minus half the screen) and then raises x to 0 if it is below; so x is never
  negative after the update, while y takes every real value.
\<close>

theorem updateCamera_smooth_clamped:
  "x_cam (camera (updateCamera g)) =
     max 0 (x_cam (camera g) + (x (player g) - screenWidth / 2 - x_cam (camera g)) * 0.1)
   \<and> y_cam (camera (updateCamera g)) =
     y_cam (camera g) + (y (player g) - screenHeight / 2 - y_cam (camera g)) * 0.1
   \<and> 0 \<le> x_cam (camera (updateCamera g))
   \<and> (\<forall>r. \<exists>g'. y_cam (camera (updateCamera g')) = r)"
proof (intro conjI allI)
  show "x_cam (camera (updateCamera g)) =
     max 0 (x_cam (camera g) + (x (player g) - screenWidth / 2 - x_cam (camera g)) * 0.1)"
    by (simp add: updateCamera_def Let_def max_def)
  show "y_cam (camera (updateCamera g)) =
     y_cam (camera g) + (y (player g) - screenHeight / 2 - y_cam (camera g)) * 0.1"
    by (simp add: updateCamera_def Let_def)
  show "0 \<le> x_cam (camera (updateCamera g))"
    by (simp add: updateCamera_def Let_def)
next
  fix r :: real
  let ?g = "\<lparr>player = spawnPlayer\<lparr>y := r + screenHeight / 2\<rparr>,
             platforms = [], camera = \<lparr>x_cam = 0, y_cam = r\<rparr>, score = 0, gameStarted = True\<rparr>"
  have "y_cam (camera (updateCamera ?g)) = r"
    by (simp add: updateCamera_def Let_def)
  then show "\<exists>g'. y_cam (camera (updateCamera g')) = r" by blast
qed

subsection \<open>Boundary check and reset\<close>

lemma fall_below_blocks:
  assumes "gameStarted g" and "y (player g) > screenHeight + 500" and "vy (player g) \<ge> 0"
    and "\<not> keyW_just k" and "\<forall>b \<in> set (platforms g). y b + height b \<le> y (player g)"
  shows "player (Update k g) = spawnPlayer \<and> score (Update k g) = 0"
proof -
  let ?g0 = "handleInput k g"
  let ?g1 = "updatePlayerPosition (applyPhysics ?g0)"
  let ?p0 = "(player ?g1)\<lparr>onGround := False\<rparr>"
  have in0: "vy (player ?g0) = vy (player g)" "y (player ?g0) = y (player g)"
    using handleInput_no_jump [OF assms(4)] by simp_all
  have "vy (player (applyPhysics ?g0)) \<ge> 0"
    using assms(3) in0(1) by (simp add: applyPhysics_player gravity_def)
  moreover have "y (player (applyPhysics ?g0)) = y (player g)"
    using in0(2) by (simp add: applyPhysics_player)
  ultimately have y1: "y (player ?g1) \<ge> y (player g)"
    by (simp add: updatePlayerPosition_player)
  have "\<forall>b \<in> set (platforms ?g1). \<not> checkCollision ?p0 b"
    using assms(5) y1 by (auto simp: checkCollision_def)
  then have "collisionLoop ?p0 (platforms ?g1) = ?p0"
    by (rule collisionLoop_no_hit)
  then have "y (player (checkCollisions ?g1)) = y (player ?g1)"
    by (simp add: checkCollisions_def)
  then have "y (player (updateCamera (checkCollisions ?g1))) > screenHeight + 500"
    using y1 assms(2) by simp
  then show ?thesis
    using assms(1) by (simp add: Update_def checkBoundaries_def resetGame_def spawnPlayer_def)
qed

lemma no_hit_NewGame_blocks:
  "y p \<ge> 600 \<Longrightarrow> collisionLoop p (platforms NewGame) = p"
  by (rule collisionLoop_no_hit) (simp add: NewGame_def checkCollision_def screenHeight_def)

text \<open>
  C8, amended. The boundary check resets exactly when the player's y exceeds 1100 at the
  check: the player is then the spawn player (position (100, 100), width and height 20,
  velocity (0, 0), onGround = false) and the score is 0; otherwise the check changes
  nothing. In a tick of the started game the check sees the y that the input, physics,
  integration and collision stages of that tick leave. A state with y beyond 1100 at the
  start of the tick is reset by the tick when the player does not move up, W is not newly
  pressed and every block lies above the player.
\<close>

theorem reset_when_below_at_check:
  "(y (player g) > screenHeight + 500 \<longrightarrow>
      player (checkBoundaries g) = spawnPlayer \<and> score (checkBoundaries g) = 0)
   \<and> (\<not> y (player g) > screenHeight + 500 \<longrightarrow> checkBoundaries g = g)
   \<and> (gameStarted g \<longrightarrow>
        Update k g = checkBoundaries (updateCamera (checkCollisions
                       (updatePlayerPosition (applyPhysics (handleInput k g)))))
        \<and> (y (player (checkCollisions (updatePlayerPosition (applyPhysics (handleInput k g)))))
              > screenHeight + 500 \<longrightarrow>
            player (Update k g) = spawnPlayer \<and> score (Update k g) = 0)
        \<and> (\<not> y (player (checkCollisions (updatePlayerPosition (applyPhysics (handleInput k g)))))
              > screenHeight + 500 \<longrightarrow>
            Update k g = updateCamera (checkCollisions
                           (updatePlayerPosition (applyPhysics (handleInput k g))))))
   \<and> (gameStarted g \<and> y (player g) > screenHeight + 500 \<and> vy (player g) \<ge> 0 \<and>
       \<not> keyW_just k \<and> (\<forall>b \<in> set (platforms g). y b + height b \<le> y (player g)) \<longrightarrow>
        player (Update k g) = spawnPlayer \<and> score (Update k g) = 0)"
proof (intro conjI)
  show "y (player g) > screenHeight + 500 \<longrightarrow>
      player (checkBoundaries g) = spawnPlayer \<and> score (checkBoundaries g) = 0"
    by (simp add: checkBoundaries_def resetGame_def spawnPlayer_def)
  show "\<not> y (player g) > screenHeight + 500 \<longrightarrow> checkBoundaries g = g"
    by (simp add: checkBoundaries_def)
  show "gameStarted g \<longrightarrow>
        Update k g = checkBoundaries (updateCamera (checkCollisions
                       (updatePlayerPosition (applyPhysics (handleInput k g)))))
        \<and> (y (player (checkCollisions (updatePlayerPosition (applyPhysics (handleInput k g)))))
              > screenHeight + 500 \<longrightarrow>
            player (Update k g) = spawnPlayer \<and> score (Update k g) = 0)
        \<and> (\<not> y (player (checkCollisions (updatePlayerPosition (applyPhysics (handleInput k g)))))
              > screenHeight + 500 \<longrightarrow>
            Update k g = updateCamera (checkCollisions
                           (updatePlayerPosition (applyPhysics (handleInput k g)))))"
    by (simp add: Update_def checkBoundaries_def resetGame_def spawnPlayer_def)
  show "gameStarted g \<and> y (player g) > screenHeight + 500 \<and> vy (player g) \<ge> 0 \<and>
       \<not> keyW_just k \<and> (\<forall>b \<in> set (platforms g). y b + height b \<le> y (player g)) \<longrightarrow>
        player (Update k g) = spawnPlayer \<and> score (Update k g) = 0"
    using fall_below_blocks [of g k] by blast
qed

text \<open>The game of \<^verbatim>\<open>NewGame\<close>, started, with the player at rest at y = 1200.\<close>

theorem reset_when_below_at_check_witness:
  "gameStarted (NewGame\<lparr>player := spawnPlayer\<lparr>y := 1200\<rparr>, score := 7, gameStarted := True\<rparr>) \<and>
   y (player (NewGame\<lparr>player := spawnPlayer\<lparr>y := 1200\<rparr>, score := 7, gameStarted := True\<rparr>))
     > screenHeight + 500 \<and>
   player (Update idle
     (NewGame\<lparr>player := spawnPlayer\<lparr>y := 1200\<rparr>, score := 7, gameStarted := True\<rparr>)) =
     \<lparr>x = 100, y = 100, width = 20, height = 20, vx = 0, vy = 0, onGround = False\<rparr> \<and>
   score (Update idle
     (NewGame\<lparr>player := spawnPlayer\<lparr>y := 1200\<rparr>, score := 7, gameStarted := True\<rparr>)) = 0"
proof -
  let ?g = "NewGame\<lparr>player := spawnPlayer\<lparr>y := 1200\<rparr>, score := 7, gameStarted := True\<rparr>"
  have hyp: "gameStarted ?g \<and> y (player ?g) > screenHeight + 500 \<and> vy (player ?g) \<ge> 0 \<and>
      \<not> keyW_just idle \<and> (\<forall>b \<in> set (platforms ?g). y b + height b \<le> y (player ?g))"
    by (simp add: NewGame_def spawnPlayer_def idle_def screenHeight_def)
  with reset_when_below_at_check [of ?g idle]
  have "player (Update idle ?g) = spawnPlayer \<and> score (Update idle ?g) = 0"
    by blast
  then show ?thesis
    using hyp by (simp add: spawnPlayer_def)
qed

text \<open>
  C8 as stated fails in \<open>risingGame\<close>: y is 1101 at the start of the tick, the tick moves
  the player up to y = 1091.3, and no reset occurs.
\<close>

theorem reset_every_state_counterexample:
  "gameStarted risingGame \<and> y (player risingGame) > screenHeight + 500 \<and>
   player (Update idle risingGame) =
     \<lparr>x = 100, y = 10913 / 10, width = 20, height = 20, vx = 0, vy = - (97 / 10),
      onGround = False\<rparr> \<and>
   player (Update idle risingGame) \<noteq> spawnPlayer"
proof -
  let ?p = "\<lparr>x = 100, y = 10913 / 10, width = 20, height = 20, vx = 0, vy = - (97 / 10),
             onGround = False\<rparr>"
  have pre: "updatePlayerPosition (applyPhysics (handleInput idle risingGame)) =
      risingGame\<lparr>player := ?p\<rparr>"
    by (simp add: risingGame_def spawnPlayer_def idle_def handleInput_def applyPhysics_def
        updatePlayerPosition_def Let_def gravity_def jumpPower_def)
  have "collisionLoop ?p (platforms NewGame) = ?p"
    by (rule no_hit_NewGame_blocks) simp
  then have coll: "player (checkCollisions (risingGame\<lparr>player := ?p\<rparr>)) = ?p"
    by (simp add: checkCollisions_def risingGame_def)
  have "Update idle risingGame =
      checkBoundaries (updateCamera (checkCollisions (risingGame\<lparr>player := ?p\<rparr>)))"
    by (simp add: Update_def pre) (simp add: risingGame_def)
  then have "player (Update idle risingGame) = ?p"
    using coll by (simp add: checkBoundaries_def screenHeight_def)
  then show ?thesis
    by (simp add: risingGame_def spawnPlayer_def screenHeight_def)
qed

text \<open>
  C10. The reset, and with it the boundary check, changes the player and the score only: the
  camera, the block list and the started flag are the ones of the state before.
\<close>

theorem resetGame_keeps_camera_blocks_flag:
  "camera (resetGame g) = camera g \<and> platforms (resetGame g) = platforms g \<and>
   gameStarted (resetGame g) = gameStarted g \<and>
   resetGame g = g\<lparr>player := player (resetGame g), score := score (resetGame g)\<rparr> \<and>
   camera (checkBoundaries g) = camera g \<and> platforms (checkBoundaries g) = platforms g \<and>
   gameStarted (checkBoundaries g) = gameStarted g \<and>
   checkBoundaries g =
     g\<lparr>player := player (checkBoundaries g), score := score (checkBoundaries g)\<rparr>"
  by (simp add: resetGame_def checkBoundaries_def)

subsection \<open>Dropping the player on a block\<close>

lemma handleInput_idle_air:
  "\<not> onGround (player g) \<Longrightarrow> handleInput idle g = g"
  by (simp add: handleInput_def idle_def Let_def)

text \<open>
  The ground block against a player that falls at most 10 a tick: when the player's bottom
  is below the block's top, dy1 is the smallest depth, and the dy1 branch puts the player
  on the block and leaves the downward vy as it is.
\<close>

lemma resolve_ground:
  assumes "0 \<le> v" "v \<le> 10" "h \<le> 550"
  shows "resolveBlock (falling h v)
           \<lparr>x = 0, y = 560, width = 1600, height = 40, blockType = DirtType\<rparr> =
         falling (min 540 h) v"
proof (cases "h > 540")
  case True
  let ?b = "\<lparr>x = 0, y = 560, width = 1600, height = 40, blockType = DirtType\<rparr>"
  have c: "checkCollision (falling h v) ?b"
    using True assms by (simp add: checkCollision_def falling_def)
  have "depth_dy1 (falling h v) ?b < depth_dx1 (falling h v) ?b \<and>
        depth_dy1 (falling h v) ?b < depth_dx2 (falling h v) ?b \<and>
        depth_dy1 (falling h v) ?b \<le> depth_dy2 (falling h v) ?b"
    using True assms
    by (simp add: depth_dx1_def depth_dx2_def depth_dy1_def depth_dy2_def falling_def)
  with resolveBlock_cases(3) [OF c]
  have "resolveBlock (falling h v) ?b =
      (falling h v)\<lparr>y := y ?b - height (falling h v),
                     vy := (if vy (falling h v) < 0 then 0 else vy (falling h v))\<rparr>"
    by blast
  then show ?thesis
    using True assms by (simp add: falling_def)
next
  case False
  then show ?thesis
    by (simp add: resolveBlock_def checkCollision_def falling_def)
qed

text \<open>One tick of the drop: vy grows by gravity up to 10, y by vy up to the block.\<close>

lemma drop_step:
  assumes "0 \<le> v" "v \<le> 10" "h \<le> 540"
  shows "\<exists>c'. Update idle (dropGame\<lparr>player := falling h v, camera := c\<rparr>) =
           dropGame\<lparr>player := falling (min 540 (h + min 10 (v + 3 / 10))) (min 10 (v + 3 / 10)),
                    camera := c'\<rparr>"
proof -
  let ?g = "dropGame\<lparr>player := falling h v, camera := c\<rparr>"
  let ?v = "min 10 (v + 3 / 10)"
  have g0: "handleInput idle ?g = ?g"
    by (rule handleInput_idle_air) (simp add: falling_def)
  have g1: "updatePlayerPosition (applyPhysics ?g) =
      dropGame\<lparr>player := falling (h + ?v) ?v, camera := c\<rparr>"
    by (simp add: updatePlayerPosition_def applyPhysics_def Let_def falling_def gravity_def
          dropGame_def min_def)
  have "resolveBlock (falling (h + ?v) ?v)
           \<lparr>x = 0, y = 560, width = 1600, height = 40, blockType = DirtType\<rparr> =
         falling (min 540 (h + ?v)) ?v"
    using assms by (intro resolve_ground) (simp_all add: min_def)
  then have g2: "checkCollisions (dropGame\<lparr>player := falling (h + ?v) ?v, camera := c\<rparr>) =
      dropGame\<lparr>player := falling (min 540 (h + ?v)) ?v, camera := c\<rparr>"
    by (simp add: checkCollisions_def dropGame_def screenHeight_def screenWidth_def falling_def)
  have g3: "updateCamera (dropGame\<lparr>player := p, camera := c\<rparr>) =
        dropGame\<lparr>player := p,
                 camera := camera (updateCamera (dropGame\<lparr>player := p, camera := c\<rparr>))\<rparr>" for p
    by (simp add: updateCamera_def Let_def dropGame_def)
  have g4: "checkBoundaries (dropGame\<lparr>player := falling (min 540 (h + ?v)) ?v, camera := c'\<rparr>) =
        dropGame\<lparr>player := falling (min 540 (h + ?v)) ?v, camera := c'\<rparr>" for c'
    by (simp add: checkBoundaries_def falling_def screenHeight_def dropGame_def)
  have "Update idle ?g = checkBoundaries (updateCamera (checkCollisions
          (updatePlayerPosition (applyPhysics (handleInput idle ?g)))))"
    by (simp add: Update_def dropGame_def)
  also have "\<dots> = checkBoundaries (updateCamera
      (dropGame\<lparr>player := falling (min 540 (h + ?v)) ?v, camera := c\<rparr>))"
    by (simp only: g0 g1 g2)
  finally show ?thesis
    by (subst (asm) g3) (use g4 in auto)
qed

text \<open>
  After \<open>n\<close> ticks the player is in the air above or on the block, with
  vy = min 10 (0.3 n); from tick 34 on it falls 10 a tick, which bounds y from below.
\<close>

lemma drop_run:
  "\<exists>h v c. (Update idle ^^ n) dropGame = dropGame\<lparr>player := falling h v, camera := c\<rparr> \<and>
     v = min 10 (3 / 10 * real n) \<and> 100 \<le> h \<and> h \<le> 540 \<and>
     min 540 (max 100 (10 * real n - 240)) \<le> h"
proof (induction n)
  case 0
  have "(Update idle ^^ 0) dropGame =
      dropGame\<lparr>player := falling 100 0, camera := \<lparr>x_cam = 0, y_cam = 0\<rparr>\<rparr>"
    by (simp add: dropGame_def falling_def spawnPlayer_def)
  then show ?case
    by (intro exI [of _ 100] exI [of _ 0] exI [of _ "\<lparr>x_cam = 0, y_cam = 0\<rparr>"]) simp
next
  case (Suc n)
  then obtain h v c where
    run: "(Update idle ^^ n) dropGame = dropGame\<lparr>player := falling h v, camera := c\<rparr>"
    and v: "v = min 10 (3 / 10 * real n)" and h: "100 \<le> h" "h \<le> 540"
    and low: "min 540 (max 100 (10 * real n - 240)) \<le> h"
    by blast
  have v0: "0 \<le> v" "v \<le> 10" using v by simp_all
  from drop_step [OF v0 h(2), of c] obtain c' where
    step: "Update idle (dropGame\<lparr>player := falling h v, camera := c\<rparr>) =
           dropGame\<lparr>player := falling (min 540 (h + min 10 (v + 3 / 10))) (min 10 (v + 3 / 10)),
                    camera := c'\<rparr>"
    by blast
  have run': "(Update idle ^^ Suc n) dropGame =
      dropGame\<lparr>player := falling (min 540 (h + min 10 (v + 3 / 10))) (min 10 (v + 3 / 10)),
               camera := c'\<rparr>"
    by (simp add: run step)
  have v': "min 10 (v + 3 / 10) = min 10 (3 / 10 * real (Suc n))"
    using v by (simp add: min_def algebra_simps)
  have h1: "100 \<le> min 540 (h + min 10 (v + 3 / 10))" "min 540 (h + min 10 (v + 3 / 10)) \<le> 540"
    using h v0 by (simp_all add: min_def)
  have low': "min 540 (max 100 (10 * real (Suc n) - 240)) \<le> min 540 (h + min 10 (v + 3 / 10))"
  proof (cases "n \<ge> 34")
    case True
    then have "real n \<ge> 34" by simp
    then have "v = 10" using v by (simp add: min_def)
    then show ?thesis using low h by (simp add: min_def max_def split: if_splits)
  next
    case False
    then have "real n \<le> 33" by simp
    then have "max 100 (10 * real (Suc n) - 240) = 100" by (simp add: max_def)
    then show ?thesis using h1 by simp
  qed
  show ?case
    using run' v' h1 low' by blast
qed

text \<open>
  C1, on the code. In \<open>dropGame\<close> the player starts at rest 440 above the block and no
  key is touched. It does come to rest on the block, at y = 540 = block.y - height, from
  tick 78 at the latest and for ever after; but the landing goes through the dy1 branch,
  which neither zeroes a downward vy nor sets onGround: onGround is false after every
  number of ticks, and in the settled state vy is 10.
\<close>

theorem drop_rests_ungrounded:
  "\<not> onGround (player ((Update idle ^^ n) dropGame)) \<and>
   (78 \<le> n \<longrightarrow>
      player ((Update idle ^^ n) dropGame) =
        \<lparr>x = 100, y = 540, width = 20, height = 20, vx = 0, vy = 10, onGround = False\<rparr>)"
proof -
  from drop_run [of n] obtain h v c where
    run: "(Update idle ^^ n) dropGame = dropGame\<lparr>player := falling h v, camera := c\<rparr>"
    and v: "v = min 10 (3 / 10 * real n)" and h: "h \<le> 540"
    and low: "min 540 (max 100 (10 * real n - 240)) \<le> h"
    by blast
  have "\<not> onGround (player ((Update idle ^^ n) dropGame))"
    by (simp add: run falling_def)
  moreover have "player ((Update idle ^^ n) dropGame) =
        \<lparr>x = 100, y = 540, width = 20, height = 20, vx = 0, vy = 10, onGround = False\<rparr>"
    if "78 \<le> n"
  proof -
    have n: "real n \<ge> 78" using that by simp
    then have "v = 10" using v by (simp add: min_def)
    moreover have "h = 540" using low h n by (simp add: min_def max_def split: if_splits)
    ultimately show ?thesis by (simp add: run falling_def)
  qed
  ultimately show ?thesis by blast
qed

theorem drop_rests_ungrounded_witness:
  "player ((Update idle ^^ 78) dropGame) =
     \<lparr>x = 100, y = 540, width = 20, height = 20, vx = 0, vy = 10, onGround = False\<rparr> \<and>
   \<not> onGround (player ((Update idle ^^ 78) dropGame))"
  using drop_rests_ungrounded [of 78] by simp

end
